theory Spec2Isabelle
  imports Complex_Main
begin

section \<open>Numbers, errors and JSON values\<close>

text \<open>
  The physics layer of \<^verbatim>\<open>em_visualizer_complete.py\<close> computes with Python floats and
  numpy \<^verbatim>\<open>float64\<close> values. Both are idealised here as exact reals: rounding and
  overflow are outside the model. What is kept is the difference between the two kinds
  of arithmetic at a singular point. A Python float division by zero raises
  \<^verbatim>\<open>ZeroDivisionError\<close>; a numpy division by zero, a numpy square root of a negative
  number and a numpy arcsine outside \<open>[-1, 1]\<close> only warn and yield \<^verbatim>\<open>inf\<close> or
  \<^verbatim>\<open>nan\<close>. Such a non-finite numpy result is \<open>None\<close> of type \<open>npfloat\<close>.
\<close>

type_synonym npfloat = "real option"

datatype error =
    ValueError string
  | KeyError string
  | IndexError string
  | ZeroDivisionError string
  | RuntimeError string

text \<open>\<^verbatim>\<open>str(e)\<close>: a \<^verbatim>\<open>KeyError\<close> prints the \<^verbatim>\<open>repr\<close> of its key, here for keys
  without quotes or escapes.\<close>

fun str_of_error :: "error \<Rightarrow> string" where
  "str_of_error (ValueError m) = m"
| "str_of_error (KeyError k) = [CHR 0x27] @ k @ [CHR 0x27]"
| "str_of_error (IndexError m) = m"
| "str_of_error (ZeroDivisionError m) = m"
| "str_of_error (RuntimeError m) = m"

definition bind_err :: "error + 'a \<Rightarrow> ('a \<Rightarrow> error + 'b) \<Rightarrow> error + 'b" where
  "bind_err x f = (case x of Inl e \<Rightarrow> Inl e | Inr v \<Rightarrow> f v)"

definition py_div :: "real \<Rightarrow> real \<Rightarrow> error + real" where
  "py_div x y = (if y = 0 then Inl (ZeroDivisionError ''float division by zero'') else Inr (x / y))"

definition np_div :: "real \<Rightarrow> real \<Rightarrow> npfloat" where
  "np_div x y = (if y = 0 then None else Some (x / y))"

definition np_sqrt :: "real \<Rightarrow> npfloat" where
  "np_sqrt x = (if x < 0 then None else Some (sqrt x))"

definition np_arcsin :: "real \<Rightarrow> npfloat" where
  "np_arcsin y = (if - 1 \<le> y \<and> y \<le> 1 then Some (arcsin y) else None)"

definition radians :: "real \<Rightarrow> real" where
  "radians d = d * pi / 180"

definition degrees :: "real \<Rightarrow> real" where
  "degrees r = r * 180 / pi"

text \<open>The configuration is a nested Python dict of floats, strings, booleans and lists.\<close>

datatype cval =
    CNum npfloat
  | CStr string
  | CBool bool
  | CList "cval list"
  | CDict "(string \<times> cval) list"

fun cfg_get :: "cval \<Rightarrow> string \<Rightarrow> cval option" where
  "cfg_get (CDict kvs) k = map_of kvs k"
| "cfg_get _ k = None"

fun cfg_path :: "cval \<Rightarrow> string list \<Rightarrow> cval option" where
  "cfg_path v [] = Some v"
| "cfg_path v (k # ks) = (case cfg_get v k of None \<Rightarrow> None | Some w \<Rightarrow> cfg_path w ks)"

text \<open>
  The request body \<^verbatim>\<open>data\<close> is a JSON object. Its fields carry the JSON types the
  front end sends: numbers (\<open>nums\<close>) and strings (\<open>strs\<close>); any field may be absent.
\<close>

record data =
  nums :: "string \<rightharpoonup> real"
  strs :: "string \<rightharpoonup> string"

definition getitem_num :: "data \<Rightarrow> string \<Rightarrow> error + real" where
  "getitem_num d k = (case nums d k of None \<Rightarrow> Inl (KeyError k) | Some v \<Rightarrow> Inr v)"

definition getitem_str :: "data \<Rightarrow> string \<Rightarrow> error + string" where
  "getitem_str d k = (case strs d k of None \<Rightarrow> Inl (KeyError k) | Some v \<Rightarrow> Inr v)"

definition get_num :: "data \<Rightarrow> string \<Rightarrow> real \<Rightarrow> real" where
  "get_num d k dflt = (case nums d k of None \<Rightarrow> dflt | Some v \<Rightarrow> v)"

definition get_str :: "data \<Rightarrow> string \<Rightarrow> string \<Rightarrow> string" where
  "get_str d k dflt = (case strs d k of None \<Rightarrow> dflt | Some v \<Rightarrow> v)"

section \<open>Constants and parameter classes\<close>

definition SPEED_OF_LIGHT :: real where
  "SPEED_OF_LIGHT = 299792458"

definition VACUUM_PERMITTIVITY :: real where
  "VACUUM_PERMITTIVITY = 8854187817 / 10 ^ 21"

definition VACUUM_PERMEABILITY :: real where
  "VACUUM_PERMEABILITY = 125663706212 / 10 ^ 17"

definition VACUUM_IMPEDANCE :: real where
  "VACUUM_IMPEDANCE = 376730313668 / 10 ^ 9"

record WaveParameters =
  frequency :: real
  amplitude :: real

definition wavelength :: "WaveParameters \<Rightarrow> error + real" where
  "wavelength w = py_div SPEED_OF_LIGHT (frequency w)"

definition wave_number :: "WaveParameters \<Rightarrow> error + real" where
  "wave_number w = bind_err (wavelength w) (\<lambda>l. py_div (2 * pi) l)"

definition angular_frequency :: "WaveParameters \<Rightarrow> real" where
  "angular_frequency w = 2 * pi * frequency w"

definition period :: "WaveParameters \<Rightarrow> error + real" where
  "period w = py_div 1 (frequency w)"

text \<open>
  \<^verbatim>\<open>MediumProperties\<close> is only ever instantiated by the four entries of the
  \<^verbatim>\<open>materials\<close> table below, whose permittivities are positive; the square roots and
  quotients of its properties are therefore taken at regular points.
\<close>

record MediumProperties =
  name :: string
  relative_permittivity :: real
  relative_permeability :: real
  conductivity :: real

definition medium :: "string \<Rightarrow> real \<Rightarrow> MediumProperties" where
  "medium nm eps = \<lparr>name = nm, relative_permittivity = eps, relative_permeability = 1, conductivity = 0\<rparr>"

definition refractive_index :: "MediumProperties \<Rightarrow> real" where
  "refractive_index m = sqrt (relative_permittivity m * relative_permeability m)"

definition wave_speed :: "MediumProperties \<Rightarrow> real" where
  "wave_speed m = SPEED_OF_LIGHT / refractive_index m"

definition impedance :: "MediumProperties \<Rightarrow> real" where
  "impedance m = VACUUM_IMPEDANCE * sqrt (relative_permeability m / relative_permittivity m)"

section \<open>The pure physics functions\<close>

text \<open>\<^verbatim>\<open>calculate_radiation_resistance\<close>: the quotient is a Python float division.\<close>

definition calculate_radiation_resistance :: "real \<Rightarrow> real \<Rightarrow> error + real" where
  "calculate_radiation_resistance dipole_length wl =
     bind_err (py_div dipole_length wl) (\<lambda>l_over_lambda.
       Inr (if l_over_lambda \<le> 1 / 10 then 20 * (pi * l_over_lambda) ^ 2
            else if \<bar>l_over_lambda - 1 / 2\<bar> < 1 / 100 then 7313 / 100
            else 80 * (pi * l_over_lambda) ^ 2))"

text \<open>
  \<^verbatim>\<open>calculate_waveguide_impedance\<close> is called with a numpy cutoff frequency, so its
  quotients and its square root are numpy operations; \<^verbatim>\<open>np.inf\<close> is non-finite.
\<close>

definition calculate_waveguide_impedance :: "string \<Rightarrow> real \<Rightarrow> real \<Rightarrow> npfloat" where
  "calculate_waveguide_impedance mode_type freq fc =
     (if freq \<le> fc then None
      else let root = Option.bind (np_div fc freq) (\<lambda>q. np_sqrt (1 - q ^ 2)) in
        if mode_type = ''TE'' then Option.bind root (\<lambda>s. np_div VACUUM_IMPEDANCE s)
        else map_option (\<lambda>s. VACUUM_IMPEDANCE * s) root)"

section \<open>The configuration\<close>

definition materials :: "string \<rightharpoonup> MediumProperties" where
  "materials = map_of
     [(''Air'', medium ''Air'' (100059 / 100000)),
      (''Water'', medium ''Water'' 80),
      (''Glass'', medium ''Glass'' (225 / 100)),
      (''Diamond'', medium ''Diamond'' (584 / 100))]"

definition materials_getitem :: "string \<Rightarrow> error + MediumProperties" where
  "materials_getitem k = (case materials k of None \<Rightarrow> Inl (KeyError k) | Some m \<Rightarrow> Inr m)"

definition medium_dict :: "MediumProperties \<Rightarrow> cval" where
  "medium_dict m = CDict
     [(''name'', CStr (name m)),
      (''relative_permittivity'', CNum (Some (relative_permittivity m))),
      (''relative_permeability'', CNum (Some (relative_permeability m))),
      (''refractive_index'', CNum (Some (refractive_index m))),
      (''wave_speed'', CNum (Some (wave_speed m))),
      (''impedance'', CNum (Some (impedance m)))]"

text \<open>
  The Snell and Fresnel part of the reflection branch, from \<^verbatim>\<open>sin_theta_t\<close> on. The
  indices \<open>n1\<close>, \<open>n2\<close> come from the table and are positive, so the two quotients by an
  index are regular; the Fresnel quotients are numpy divisions whose divisor can vanish.
\<close>

definition fresnel_entries :: "real \<Rightarrow> real \<Rightarrow> real \<Rightarrow> (string \<times> cval) list" where
  "fresnel_entries n1 n2 theta_i =
     (let sin_theta_t = n1 * sin theta_i / n2 in
      if sin_theta_t \<le> 1 then
        (let theta_t = np_arcsin sin_theta_t;
             cos_theta_i = cos theta_i;
             cos_theta_t = map_option cos theta_t;
             r_te = Option.bind cos_theta_t (\<lambda>ct.
                      np_div (n1 * cos_theta_i - n2 * ct) (n1 * cos_theta_i + n2 * ct));
             t_te = Option.bind cos_theta_t (\<lambda>ct.
                      np_div (2 * n1 * cos_theta_i) (n1 * cos_theta_i + n2 * ct));
             r_tm = Option.bind cos_theta_t (\<lambda>ct.
                      np_div (n2 * cos_theta_i - n1 * ct) (n2 * cos_theta_i + n1 * ct));
             t_tm = Option.bind cos_theta_t (\<lambda>ct.
                      np_div (2 * n1 * cos_theta_i) (n2 * cos_theta_i + n1 * ct));
             R_te = map_option (\<lambda>r. r ^ 2) r_te;
             T_te = Option.bind cos_theta_t (\<lambda>ct.
                      Option.bind (np_div (n2 * ct) (n1 * cos_theta_i)) (\<lambda>q.
                        map_option (\<lambda>t. q * t ^ 2) t_te))
         in [(''transmitted_angle_deg'', CNum (map_option degrees theta_t)),
             (''transmitted_angle_rad'', CNum theta_t),
             (''total_internal_reflection'', CBool False),
             (''fresnel_coefficients'', CDict
                [(''r_te'', CNum r_te), (''t_te'', CNum t_te),
                 (''r_tm'', CNum r_tm), (''t_tm'', CNum t_tm),
                 (''R_te'', CNum R_te), (''T_te'', CNum T_te)])])
      else
        [(''total_internal_reflection'', CBool True),
         (''critical_angle_deg'', CNum (map_option degrees (np_arcsin (n2 / n1)))),
         (''fresnel_coefficients'', CDict
            [(''r_te'', CNum (Some 1)), (''r_tm'', CNum (Some 1)),
             (''R_te'', CNum (Some 1)), (''R_tm'', CNum (Some 1))])])"

definition reflection_entries :: "data \<Rightarrow> error + (string \<times> cval) list" where
  "reflection_entries d =
     bind_err (bind_err (getitem_str d ''medium1'') materials_getitem) (\<lambda>medium1.
     bind_err (bind_err (getitem_str d ''medium2'') materials_getitem) (\<lambda>medium2.
     bind_err (getitem_num d ''angle'') (\<lambda>ang.
       let theta_i = radians ang;
           n1 = refractive_index medium1;
           n2 = refractive_index medium2
       in Inr ([(''media'', CList [medium_dict medium1, medium_dict medium2]),
                (''incident_angle_deg'', CNum (Some ang)),
                (''incident_angle_rad'', CNum (Some theta_i))]
               @ fresnel_entries n1 n2 theta_i))))"

text \<open>
  The Doppler branch. Under its guard \<open>\<bar>beta\<bar> < 1\<close> the Python quotients have a
  positive divisor and the square roots a non-negative argument.
\<close>

definition doppler_entries :: "data \<Rightarrow> WaveParameters \<Rightarrow> (string \<times> cval) list" where
  "doppler_entries d w =
     (let v = get_num d ''velocity'' 0;
          beta = v / SPEED_OF_LIGHT
      in if \<bar>beta\<bar> < 1 then
           (let f_observed =
                  (if v > 0 then frequency w * sqrt ((1 + beta) / (1 - beta))
                   else frequency w * sqrt ((1 - \<bar>beta\<bar>) / (1 + \<bar>beta\<bar>)))
            in [(''doppler'', CDict
                   [(''source_velocity'', CNum (Some v)),
                    (''beta'', CNum (Some beta)),
                    (''observed_frequency'', CNum (Some f_observed)),
                    (''frequency_shift'', CNum (Some (f_observed - frequency w))),
                    (''relative_shift'', CNum (np_div (f_observed - frequency w) (frequency w)))])])
         else
           [(''doppler'', CDict
               [(''source_velocity'', CNum (Some v)),
                (''error'', CStr ''Velocity cannot exceed speed of light'')])])"

definition dipole_entries :: "data \<Rightarrow> WaveParameters \<Rightarrow> error + (string \<times> cval) list" where
  "dipole_entries d w =
     bind_err (wavelength w) (\<lambda>wl.
       let dipole_length = get_num d ''dipole_length'' (1 / 2) * wl in
       bind_err (calculate_radiation_resistance dipole_length wl) (\<lambda>R_rad.
         Inr [(''dipole'', CDict
                [(''length'', CNum (Some dipole_length)),
                 (''length_wavelengths'', CNum (Some (get_num d ''dipole_length'' (1 / 2)))),
                 (''current_distribution'', CStr (get_str d ''current_dist'' ''uniform'')),
                 (''radiation_resistance'', CNum (Some R_rad))])]))"

text \<open>\<^verbatim>\<open>mode[i]\<close>, and \<^verbatim>\<open>int\<close> of a string of one ASCII character.\<close>

definition str_index :: "string \<Rightarrow> nat \<Rightarrow> error + char" where
  "str_index s i = (if i < length s then Inr (s ! i) else Inl (IndexError ''string index out of range''))"

definition int_of_char :: "char \<Rightarrow> error + nat" where
  "int_of_char ch =
     (let k = (of_char ch :: nat) in
      if 48 \<le> k \<and> k \<le> 57 then Inr (k - 48)
      else Inl (ValueError (''invalid literal for int() with base 10: '' @ [CHR 0x27, ch, CHR 0x27])))"

text \<open>
  The waveguide branch. \<^verbatim>\<open>m * np.pi / a\<close> is a Python float division. The group
  velocity \<^verbatim>\<open>SPEED_OF_LIGHT**2 / vp\<close> is a numpy division: for an infinite \<open>vp\<close> (a
  vanishing \<open>beta_g\<close> under a non-zero angular frequency) it is zero.
\<close>

definition waveguide_entries :: "data \<Rightarrow> WaveParameters \<Rightarrow> error + (string \<times> cval) list" where
  "waveguide_entries d w =
     (let a = get_num d ''guide_width'' (23 / 1000);
          b = get_num d ''guide_height'' (10 / 1000);
          mode = get_str d ''mode'' ''TE10'';
          mode_type = take 2 mode
      in
      bind_err (bind_err (str_index mode 2) int_of_char) (\<lambda>m.
      bind_err (bind_err (str_index mode 3) int_of_char) (\<lambda>n.
      bind_err (py_div (real m * pi) a) (\<lambda>ka.
      bind_err (py_div (real n * pi) b) (\<lambda>kb.
        let fc = SPEED_OF_LIGHT / (2 * pi) * sqrt (ka ^ 2 + kb ^ 2);
            k0 = angular_frequency w / SPEED_OF_LIGHT;
            kc = 2 * pi * fc / SPEED_OF_LIGHT
        in
        if frequency w > fc then
          (let beta_g = np_sqrt (k0 ^ 2 - kc ^ 2);
               lambda_g = Option.bind beta_g (\<lambda>bg. np_div (2 * pi) bg);
               vp = Option.bind beta_g (\<lambda>bg. np_div (angular_frequency w) bg);
               vg = (case beta_g of None \<Rightarrow> None
                     | Some bg \<Rightarrow>
                         if bg = 0 then (if angular_frequency w = 0 then None else Some 0)
                         else np_div (SPEED_OF_LIGHT ^ 2) (angular_frequency w / bg))
           in Inr [(''waveguide'', CDict
                [(''type'', CStr (get_str d ''guide_type'' ''rectangular'')),
                 (''width'', CNum (Some a)),
                 (''height'', CNum (Some b)),
                 (''mode'', CStr mode),
                 (''mode_type'', CStr mode_type),
                 (''mode_indices'', CDict [(''m'', CNum (Some (real m))), (''n'', CNum (Some (real n)))]),
                 (''cutoff_frequency'', CNum (Some fc)),
                 (''cutoff_wavelength'', CNum (np_div SPEED_OF_LIGHT fc)),
                 (''propagation_constant'', CNum beta_g),
                 (''guide_wavelength'', CNum lambda_g),
                 (''phase_velocity'', CNum vp),
                 (''group_velocity'', CNum vg),
                 (''impedance'', CNum (calculate_waveguide_impedance mode_type (frequency w) fc))])])
        else
          (let alpha = np_sqrt (kc ^ 2 - k0 ^ 2)
           in Inr [(''waveguide'', CDict
                [(''type'', CStr (get_str d ''guide_type'' ''rectangular'')),
                 (''width'', CNum (Some a)),
                 (''height'', CNum (Some b)),
                 (''mode'', CStr mode),
                 (''cutoff_frequency'', CNum (Some fc)),
                 (''attenuation_constant'', CNum alpha),
                 (''evanescent'', CBool True)])]))))))"

definition phenomenon_entries :: "data \<Rightarrow> WaveParameters \<Rightarrow> string \<Rightarrow> error + (string \<times> cval) list" where
  "phenomenon_entries d w ph =
     (if ph = ''reflection'' then reflection_entries d
      else if ph = ''doppler'' then Inr (doppler_entries d w)
      else if ph = ''dipole'' then dipole_entries d w
      else if ph = ''waveguide'' then waveguide_entries d w
      else Inr [])"

text \<open>
  \<^verbatim>\<open>generate_configuration\<close>. The dict literal is evaluated in source order:
  \<^verbatim>\<open>data['phenomenon']\<close> before the wave properties, of which \<^verbatim>\<open>wavelength\<close>,
  \<^verbatim>\<open>period\<close> and \<^verbatim>\<open>wave_number\<close> divide by the frequency.
\<close>

definition generate_configuration :: "data \<Rightarrow> error + cval" where
  "generate_configuration d =
     bind_err (getitem_num d ''frequency'') (\<lambda>f.
     bind_err (getitem_num d ''amplitude'') (\<lambda>A.
       let wave = \<lparr>frequency = f, amplitude = A\<rparr> in
       bind_err (getitem_str d ''phenomenon'') (\<lambda>ph.
       bind_err (wavelength wave) (\<lambda>wl.
       bind_err (period wave) (\<lambda>T.
       bind_err (wave_number wave) (\<lambda>k.
       bind_err (phenomenon_entries d wave ph) (\<lambda>extra.
         Inr (CDict
           [(''version'', CStr ''1.0''),
            (''phenomenon'', CStr ph),
            (''physics'', CDict
               ([(''wave'', CDict
                    [(''frequency'', CNum (Some (frequency wave))),
                     (''amplitude'', CNum (Some (amplitude wave))),
                     (''wavelength'', CNum (Some wl)),
                     (''period'', CNum (Some T)),
                     (''angular_frequency'', CNum (Some (angular_frequency wave))),
                     (''wave_number'', CNum (Some k))]),
                 (''constants'', CDict
                    [(''speed_of_light'', CNum (Some SPEED_OF_LIGHT)),
                     (''vacuum_permittivity'', CNum (Some VACUUM_PERMITTIVITY)),
                     (''vacuum_permeability'', CNum (Some VACUUM_PERMEABILITY)),
                     (''vacuum_impedance'', CNum (Some VACUUM_IMPEDANCE))])]
                @ extra))]))))))))"

section \<open>The request handler\<close>

text \<open>
  \<^verbatim>\<open>visualize\<close>. The plotting functions \<^verbatim>\<open>create_*_visualization\<close> are a parameter
  \<open>render\<close>: given the phenomenon, the configuration and the request they return a dict
  of strings or raise. \<open>body\<close> is the outcome of \<^verbatim>\<open>request.json\<close>, which is read
  inside the \<^verbatim>\<open>try\<close> and may raise as well. The two \<^verbatim>\<open>print\<close> calls of the handler
  write to the log only.
\<close>

definition known_phenomena :: "string list" where
  "known_phenomena = [''plane_wave'', ''standing_wave'', ''reflection'', ''interference'',
     ''doppler'', ''polarization'', ''dipole'', ''waveguide'']"

definition dict_getitem :: "(string \<rightharpoonup> string) \<Rightarrow> string \<Rightarrow> error + string" where
  "dict_getitem m k = (case m k of None \<Rightarrow> Inl (KeyError k) | Some v \<Rightarrow> Inr v)"

definition dict_get :: "(string \<rightharpoonup> string) \<Rightarrow> string \<Rightarrow> string \<Rightarrow> string" where
  "dict_get m k dflt = (case m k of None \<Rightarrow> dflt | Some v \<Rightarrow> v)"

definition visualize_try ::
  "(string \<Rightarrow> cval \<Rightarrow> data \<Rightarrow> error + (string \<rightharpoonup> string)) \<Rightarrow> error + data \<Rightarrow> error + cval" where
  "visualize_try render body =
     bind_err body (\<lambda>d.
     bind_err (getitem_num d ''frequency'') (\<lambda>f.
       if f \<le> 0 then Inl (ValueError ''Frequency must be positive'')
       else
     bind_err (getitem_num d ''amplitude'') (\<lambda>A.
       if A \<le> 0 then Inl (ValueError ''Amplitude must be positive'')
       else
     bind_err (generate_configuration d) (\<lambda>config.
     bind_err (getitem_str d ''phenomenon'') (\<lambda>ph.
     bind_err (if ph \<in> set known_phenomena then render ph config d
               else Inl (ValueError (''Unknown phenomenon: '' @ ph))) (\<lambda>result.
     bind_err (dict_getitem result ''image'') (\<lambda>img.
       Inr (CDict
         [(''success'', CBool True),
          (''image'', CStr img),
          (''config'', config),
          (''description'', CStr (dict_get result ''description'' [])),
          (''description_html'', CStr (dict_get result ''description_html'' []))]))))))))"

definition visualize ::
  "(string \<Rightarrow> cval \<Rightarrow> data \<Rightarrow> error + (string \<rightharpoonup> string)) \<Rightarrow> error + data \<Rightarrow> cval" where
  "visualize render body =
     (case visualize_try render body of
        Inr response \<Rightarrow> response
      | Inl e \<Rightarrow> CDict [(''success'', CBool False), (''error'', CStr (str_of_error e))])"

text \<open>The entry of the configuration at a path of keys, when one is produced.\<close>

definition config_at :: "data \<Rightarrow> string list \<Rightarrow> cval option" where
  "config_at d p = (case generate_configuration d of Inl e \<Rightarrow> None | Inr cfg \<Rightarrow> cfg_path cfg p)"

section \<open>Derived notions\<close>


text \<open>
  The radiation resistance that \<^verbatim>\<open>calculate_radiation_resistance\<close> returns for a dipole of
  \<open>x\<close> wavelengths, read off at wavelength 1.
\<close>

definition R_rad_of :: "real \<Rightarrow> real" where
  "R_rad_of x = projr (calculate_radiation_resistance x 1)"

text \<open>The character of a decimal digit.\<close>

definition digit_char :: "nat \<Rightarrow> char" where
  "digit_char k = ''0123456789'' ! k"

section \<open>Example inputs\<close>

definition doppler_request :: data where
  "doppler_request =
     \<lparr>nums = [''frequency'' \<mapsto> 1000000000, ''amplitude'' \<mapsto> 1, ''velocity'' \<mapsto> - 149896229],
      strs = [''phenomenon'' \<mapsto> ''doppler'']\<rparr>"

definition blank_render :: "string \<Rightarrow> cval \<Rightarrow> data \<Rightarrow> error + (string \<rightharpoonup> string)" where
  "blank_render ph config d = Inr Map.empty"


definition unknown_medium_request :: data where
  "unknown_medium_request =
     \<lparr>nums = [''frequency'' \<mapsto> 1000000000, ''amplitude'' \<mapsto> 1, ''angle'' \<mapsto> 30],
      strs = [''phenomenon'' \<mapsto> ''reflection'', ''medium1'' \<mapsto> ''Air'', ''medium2'' \<mapsto> ''Ice'']\<rparr>"



definition reflection_request :: "string \<Rightarrow> string \<Rightarrow> real \<Rightarrow> data" where
  "reflection_request m1 m2 ang =
     \<lparr>nums = [''frequency'' \<mapsto> 1000000000, ''amplitude'' \<mapsto> 1, ''angle'' \<mapsto> ang],
      strs = [''phenomenon'' \<mapsto> ''reflection'', ''medium1'' \<mapsto> m1, ''medium2'' \<mapsto> m2]\<rparr>"


definition waveguide_request :: data where
  "waveguide_request =
     \<lparr>nums = [''frequency'' \<mapsto> 10000000000, ''amplitude'' \<mapsto> 1],
      strs = [''phenomenon'' \<mapsto> ''waveguide'']\<rparr>"

section \<open>Basic facts\<close>

lemma bind_err_simps [simp]:
  "bind_err (Inl e) f = Inl e" "bind_err (Inr v) f = f v"
  by (simp_all add: bind_err_def)

text \<open>
  A request with a non-zero frequency, an amplitude and a phenomenon gets past the wave
  properties; the configuration then fails or succeeds with the phenomenon's own part.
\<close>

lemma generate_configuration_fail:
  assumes "nums d ''frequency'' = Some f" "f \<noteq> 0" "nums d ''amplitude'' = Some A"
    and "strs d ''phenomenon'' = Some ph"
    and "phenomenon_entries d \<lparr>frequency = f, amplitude = A\<rparr> ph = Inl e"
  shows "generate_configuration d = Inl e"
  using assms
  by (simp add: generate_configuration_def getitem_num_def getitem_str_def wavelength_def
      period_def wave_number_def py_div_def SPEED_OF_LIGHT_def Let_def)

lemma config_at_physics:
  assumes "nums d ''frequency'' = Some f" "f \<noteq> 0" "nums d ''amplitude'' = Some A"
    and "strs d ''phenomenon'' = Some ph"
    and "phenomenon_entries d \<lparr>frequency = f, amplitude = A\<rparr> ph = Inr extra"
    and "k \<noteq> ''wave''" "k \<noteq> ''constants''"
  shows "config_at d (''physics'' # k # ks) =
           (case map_of extra k of None \<Rightarrow> None | Some v \<Rightarrow> cfg_path v ks)"
  using assms
  by (simp add: config_at_def generate_configuration_def getitem_num_def getitem_str_def
      wavelength_def period_def wave_number_def py_div_def SPEED_OF_LIGHT_def Let_def)

section \<open>The request handler: failures\<close>


lemma materials_None_iff:
  "materials k = None \<longleftrightarrow> k \<notin> {''Air'', ''Water'', ''Glass'', ''Diamond''}"
  by (simp add: materials_def)







section \<open>Unknown media\<close>

lemma reflection_entries_KeyError:
  assumes "strs d ''medium1'' \<notin> Some ` {''Air'', ''Water'', ''Glass'', ''Diamond''} \<or>
           strs d ''medium2'' \<notin> Some ` {''Air'', ''Water'', ''Glass'', ''Diamond''}"
  shows "\<exists>k. reflection_entries d = Inl (KeyError k)"
proof (cases "strs d ''medium1''")
  case None
  then show ?thesis by (simp add: reflection_entries_def getitem_str_def)
next
  case m1: (Some k1)
  show ?thesis
  proof (cases "materials k1")
    case None
    with m1 show ?thesis by (simp add: reflection_entries_def getitem_str_def materials_getitem_def)
  next
    case mm1: (Some med1)
    then have "k1 \<in> {''Air'', ''Water'', ''Glass'', ''Diamond''}"
      using materials_None_iff [of k1] by auto
    with m1 assms have bad2: "strs d ''medium2'' \<notin> Some ` {''Air'', ''Water'', ''Glass'', ''Diamond''}"
      by auto
    show ?thesis
    proof (cases "strs d ''medium2''")
      case None
      with m1 mm1 show ?thesis
        by (simp add: reflection_entries_def getitem_str_def materials_getitem_def)
    next
      case m2: (Some k2)
      with bad2 have "materials k2 = None"
        using materials_None_iff [of k2] by auto
      with m1 mm1 m2 show ?thesis
        by (simp add: reflection_entries_def getitem_str_def materials_getitem_def)
    qed
  qed
qed

lemma generate_configuration_KeyError:
  assumes "strs d ''phenomenon'' = Some ''reflection''"
    and "nums d ''frequency'' \<noteq> Some 0"
    and "strs d ''medium1'' \<notin> Some ` {''Air'', ''Water'', ''Glass'', ''Diamond''} \<or>
         strs d ''medium2'' \<notin> Some ` {''Air'', ''Water'', ''Glass'', ''Diamond''}"
  shows "\<exists>k. generate_configuration d = Inl (KeyError k)"
proof (cases "nums d ''frequency''")
  case None
  then show ?thesis by (simp add: generate_configuration_def getitem_num_def)
next
  case f: (Some f)
  with assms(2) have f0: "f \<noteq> 0" by auto
  show ?thesis
  proof (cases "nums d ''amplitude''")
    case None
    with f show ?thesis by (simp add: generate_configuration_def getitem_num_def)
  next
    case A: (Some A)
    obtain k where "reflection_entries d = Inl (KeyError k)"
      using reflection_entries_KeyError [OF assms(3)] by blast
    then have "phenomenon_entries d \<lparr>frequency = f, amplitude = A\<rparr> ''reflection'' = Inl (KeyError k)"
      by (simp add: phenomenon_entries_def)
    from generate_configuration_fail [OF f f0 A assms(1) this] show ?thesis by blast
  qed
qed

lemma visualize_try_unknown_medium:
  assumes "strs d ''phenomenon'' = Some ''reflection''"
    and "strs d ''medium1'' \<notin> Some ` {''Air'', ''Water'', ''Glass'', ''Diamond''} \<or>
         strs d ''medium2'' \<notin> Some ` {''Air'', ''Water'', ''Glass'', ''Diamond''}"
  shows "\<exists>e. visualize_try render (Inr d) = Inl e"
proof (cases "nums d ''frequency'' = Some 0")
  case True
  then show ?thesis by (simp add: visualize_try_def getitem_num_def)
next
  case False
  then obtain k where "generate_configuration d = Inl (KeyError k)"
    using generate_configuration_KeyError [OF assms(1) _ assms(2)] by blast
  then show ?thesis
    by (auto simp: visualize_try_def getitem_num_def split: option.splits)
qed

text \<open>
  C8. A reflection request in which \<^verbatim>\<open>medium1\<close> or \<^verbatim>\<open>medium2\<close> is not one of exactly
  "Air", "Water", "Glass", "Diamond" makes \<^verbatim>\<open>generate_configuration\<close> raise a
  \<^verbatim>\<open>KeyError\<close> (for the frequencies \<^verbatim>\<open>visualize\<close> lets through, which are not zero), and
  \<^verbatim>\<open>visualize\<close> answers it with \<open>success = false\<close>.
\<close>

theorem unknown_medium_key_error:
  assumes "strs d ''phenomenon'' = Some ''reflection''"
    and "strs d ''medium1'' \<notin> Some ` {''Air'', ''Water'', ''Glass'', ''Diamond''} \<or>
         strs d ''medium2'' \<notin> Some ` {''Air'', ''Water'', ''Glass'', ''Diamond''}"
  shows "(nums d ''frequency'' \<noteq> Some 0 \<longrightarrow> (\<exists>k. generate_configuration d = Inl (KeyError k))) \<and>
         cfg_get (visualize render (Inr d)) ''success'' = Some (CBool False)"
proof (intro conjI impI)
  assume "nums d ''frequency'' \<noteq> Some 0"
  with assms show "\<exists>k. generate_configuration d = Inl (KeyError k)"
    by (intro generate_configuration_KeyError)
next
  obtain e where "visualize_try render (Inr d) = Inl e"
    using visualize_try_unknown_medium [OF assms] by blast
  then show "cfg_get (visualize render (Inr d)) ''success'' = Some (CBool False)"
    by (simp add: visualize_def)
qed

theorem unknown_medium_key_error_witness:
  "generate_configuration unknown_medium_request = Inl (KeyError ''Ice'') \<and>
   cfg_get (visualize blank_render (Inr unknown_medium_request)) ''success'' = Some (CBool False)"
proof -
  have "(nums unknown_medium_request ''frequency'' \<noteq> Some 0 \<longrightarrow>
           (\<exists>k. generate_configuration unknown_medium_request = Inl (KeyError k))) \<and>
        cfg_get (visualize blank_render (Inr unknown_medium_request)) ''success'' = Some (CBool False)"
    by (rule unknown_medium_key_error) (simp_all add: unknown_medium_request_def)
  moreover have "nums unknown_medium_request ''frequency'' \<noteq> Some 0"
    by (simp add: unknown_medium_request_def)
  moreover have "reflection_entries unknown_medium_request = Inl (KeyError ''Ice'')"
    by (simp add: unknown_medium_request_def reflection_entries_def getitem_str_def
        materials_getitem_def materials_def)
  then have "generate_configuration unknown_medium_request = Inl (KeyError ''Ice'')"
    by (intro generate_configuration_fail [where f = 1000000000 and A = 1 and ph = "''reflection''"])
      (simp_all add: unknown_medium_request_def phenomenon_entries_def)
  ultimately show ?thesis by blast
qed

section \<open>Doppler shift\<close>

lemma doppler_closed_form:
  assumes "\<bar>v\<bar> < SPEED_OF_LIGHT" and veq: "v = get_num d ''velocity'' 0"
  shows "map_of (doppler_entries d \<lparr>frequency = f, amplitude = A\<rparr>) ''doppler'' =
    Some (CDict
      [(''source_velocity'', CNum (Some v)),
       (''beta'', CNum (Some (v / SPEED_OF_LIGHT))),
       (''observed_frequency'',
          CNum (Some (f * sqrt ((1 + v / SPEED_OF_LIGHT) / (1 - v / SPEED_OF_LIGHT))))),
       (''frequency_shift'',
          CNum (Some (f * sqrt ((1 + v / SPEED_OF_LIGHT) / (1 - v / SPEED_OF_LIGHT)) - f))),
       (''relative_shift'',
          CNum (np_div (f * sqrt ((1 + v / SPEED_OF_LIGHT) / (1 - v / SPEED_OF_LIGHT)) - f) f))])"
proof -
  define beta where "beta = v / SPEED_OF_LIGHT"
  have c: "0 < SPEED_OF_LIGHT" by (simp add: SPEED_OF_LIGHT_def)
  have b: "\<bar>beta\<bar> < 1" using assms c by (simp add: beta_def)
  have "beta \<le> 0" if "\<not> 0 < v"
    using that c by (simp add: beta_def divide_le_0_iff)
  then have fobs: "(if 0 < v then f * sqrt ((1 + beta) / (1 - beta))
        else f * sqrt ((1 - \<bar>beta\<bar>) / (1 + \<bar>beta\<bar>))) = f * sqrt ((1 + beta) / (1 - beta))"
    by auto
  show ?thesis
    unfolding doppler_entries_def Let_def veq [symmetric] beta_def [symmetric]
    apply (simp only: WaveParameters.select_convs b if_True fobs)
    apply simp
    done
qed

text \<open>
  C3. A Doppler request whose source velocity \<open>v\<close> (default 0) satisfies \<open>\<bar>v\<bar> < c\<close>
  reports as observed frequency the relativistic value \<open>f * sqrt ((1 + beta) / (1 - beta))\<close>
  with \<open>beta = v / c\<close>, whichever of the approaching (\<open>v > 0\<close>) and receding
  (\<open>v \<le> 0\<close>) branches computes it.
\<close>

theorem doppler_observed_frequency:
  assumes "nums d ''frequency'' = Some f" "f \<noteq> 0" "nums d ''amplitude'' = Some A"
    and "strs d ''phenomenon'' = Some ''doppler''"
    and "v = get_num d ''velocity'' 0" "\<bar>v\<bar> < SPEED_OF_LIGHT"
  shows "config_at d [''physics'', ''doppler'', ''observed_frequency''] =
    Some (CNum (Some (f * sqrt ((1 + v / SPEED_OF_LIGHT) / (1 - v / SPEED_OF_LIGHT)))))"
proof -
  have pe: "phenomenon_entries d \<lparr>frequency = f, amplitude = A\<rparr> ''doppler'' =
      Inr (doppler_entries d \<lparr>frequency = f, amplitude = A\<rparr>)"
    by (simp add: phenomenon_entries_def)
  show ?thesis
    by (simp add: config_at_physics [OF assms(1-4) pe]
        doppler_closed_form [OF assms(6) assms(5)])
qed

text \<open>A source receding at half the speed of light: the frequency drops by \<open>sqrt (1 / 3)\<close>.\<close>

theorem doppler_observed_frequency_witness:
  "config_at doppler_request [''physics'', ''doppler'', ''observed_frequency''] =
     Some (CNum (Some (1000000000 * sqrt (1 / 3))))"
proof -
  have ratio: "(1 + - 149896229 / SPEED_OF_LIGHT) / (1 - - 149896229 / SPEED_OF_LIGHT) = 1 / 3"
    by (simp add: SPEED_OF_LIGHT_def)
  have "config_at doppler_request [''physics'', ''doppler'', ''observed_frequency''] =
     Some (CNum (Some (1000000000 *
       sqrt ((1 + - 149896229 / SPEED_OF_LIGHT) / (1 - - 149896229 / SPEED_OF_LIGHT)))))"
    by (rule doppler_observed_frequency [where A = 1])
      (simp_all add: doppler_request_def get_num_def SPEED_OF_LIGHT_def)
  then show ?thesis by (simp only: ratio)
qed

section \<open>Reflection and refraction\<close>

lemma materials_cases:
  assumes "materials k = Some m"
  shows "m = medium ''Air'' (100059 / 100000) \<or> m = medium ''Water'' 80 \<or>
         m = medium ''Glass'' (225 / 100) \<or> m = medium ''Diamond'' (584 / 100)"
  using assms by (auto simp: materials_def split: if_splits)

lemma refractive_index_pos: "materials k = Some m \<Longrightarrow> 0 < refractive_index m"
  by (drule materials_cases) (auto simp: refractive_index_def medium_def)

lemma reflection_entries_ok:
  assumes "strs d ''medium1'' = Some k1" "materials k1 = Some medium1"
    and "strs d ''medium2'' = Some k2" "materials k2 = Some medium2"
    and "nums d ''angle'' = Some ang"
  shows "reflection_entries d =
    Inr ([(''media'', CList [medium_dict medium1, medium_dict medium2]),
          (''incident_angle_deg'', CNum (Some ang)),
          (''incident_angle_rad'', CNum (Some (radians ang)))]
         @ fresnel_entries (refractive_index medium1) (refractive_index medium2) (radians ang))"
  using assms
  by (simp add: reflection_entries_def getitem_str_def getitem_num_def materials_getitem_def Let_def)

lemma reflection_config_at:
  assumes "nums d ''frequency'' = Some f" "f \<noteq> 0" "nums d ''amplitude'' = Some A"
    and "strs d ''phenomenon'' = Some ''reflection''"
    and "strs d ''medium1'' = Some k1" "materials k1 = Some medium1"
    and "strs d ''medium2'' = Some k2" "materials k2 = Some medium2"
    and "nums d ''angle'' = Some ang"
    and "k \<in> {''total_internal_reflection'', ''transmitted_angle_deg'', ''transmitted_angle_rad'',
              ''critical_angle_deg'', ''fresnel_coefficients''}"
  shows "config_at d (''physics'' # k # ks) =
    (case map_of (fresnel_entries (refractive_index medium1) (refractive_index medium2) (radians ang)) k
     of None \<Rightarrow> None | Some v \<Rightarrow> cfg_path v ks)"
proof -
  have pe: "phenomenon_entries d \<lparr>frequency = f, amplitude = A\<rparr> ''reflection'' =
    Inr ([(''media'', CList [medium_dict medium1, medium_dict medium2]),
          (''incident_angle_deg'', CNum (Some ang)),
          (''incident_angle_rad'', CNum (Some (radians ang)))]
         @ fresnel_entries (refractive_index medium1) (refractive_index medium2) (radians ang))"
    by (simp add: phenomenon_entries_def reflection_entries_ok [OF assms(5-9)])
  have k: "k \<noteq> ''wave''" "k \<noteq> ''constants''" "k \<noteq> ''media''"
      "k \<noteq> ''incident_angle_deg''" "k \<noteq> ''incident_angle_rad''"
    using assms(10) by auto
  show ?thesis
    unfolding config_at_physics [OF assms(1-4) pe k(1,2)] using k(3-5) by simp
qed

lemma fresnel_entries_flag:
  "map_of (fresnel_entries n1 n2 theta_i) ''total_internal_reflection'' =
     Some (CBool (1 < n1 * sin theta_i / n2))"
  by (simp add: fresnel_entries_def Let_def)

lemma fresnel_entries_refraction:
  assumes "s = n1 * sin theta_i / n2" "- 1 \<le> s" "s \<le> 1"
  shows "fresnel_entries n1 n2 theta_i =
    [(''transmitted_angle_deg'', CNum (Some (degrees (arcsin s)))),
     (''transmitted_angle_rad'', CNum (Some (arcsin s))),
     (''total_internal_reflection'', CBool False),
     (''fresnel_coefficients'', CDict
        [(''r_te'', CNum (np_div (n1 * cos theta_i - n2 * cos (arcsin s))
                                (n1 * cos theta_i + n2 * cos (arcsin s)))),
         (''t_te'', CNum (np_div (2 * n1 * cos theta_i)
                                (n1 * cos theta_i + n2 * cos (arcsin s)))),
         (''r_tm'', CNum (np_div (n2 * cos theta_i - n1 * cos (arcsin s))
                                (n2 * cos theta_i + n1 * cos (arcsin s)))),
         (''t_tm'', CNum (np_div (2 * n1 * cos theta_i)
                                (n2 * cos theta_i + n1 * cos (arcsin s)))),
         (''R_te'', CNum (map_option (\<lambda>r. r ^ 2)
                           (np_div (n1 * cos theta_i - n2 * cos (arcsin s))
                                   (n1 * cos theta_i + n2 * cos (arcsin s))))),
         (''T_te'', CNum (Option.bind (np_div (n2 * cos (arcsin s)) (n1 * cos theta_i)) (\<lambda>q.
                           map_option (\<lambda>t. q * t ^ 2)
                             (np_div (2 * n1 * cos theta_i)
                                     (n1 * cos theta_i + n2 * cos (arcsin s))))))])]"
  using assms(2,3) unfolding fresnel_entries_def assms(1) [symmetric] Let_def
  by (simp add: np_arcsin_def)

lemma fresnel_entries_total:
  assumes "1 < n1 * sin theta_i / n2"
  shows "fresnel_entries n1 n2 theta_i =
    [(''total_internal_reflection'', CBool True),
     (''critical_angle_deg'', CNum (map_option degrees (np_arcsin (n2 / n1)))),
     (''fresnel_coefficients'', CDict
        [(''r_te'', CNum (Some 1)), (''r_tm'', CNum (Some 1)),
         (''R_te'', CNum (Some 1)), (''R_tm'', CNum (Some 1))])]"
  using assms by (simp add: fresnel_entries_def Let_def)

lemma materials_simps:
  "materials ''Air'' = Some (medium ''Air'' (100059 / 100000))"
  "materials ''Glass'' = Some (medium ''Glass'' (225 / 100))"
  by (simp_all add: materials_def)

lemma reflection_request_simps:
  "nums (reflection_request m1 m2 ang) ''frequency'' = Some 1000000000"
  "nums (reflection_request m1 m2 ang) ''amplitude'' = Some 1"
  "strs (reflection_request m1 m2 ang) ''phenomenon'' = Some ''reflection''"
  "strs (reflection_request m1 m2 ang) ''medium1'' = Some m1"
  "strs (reflection_request m1 m2 ang) ''medium2'' = Some m2"
  "nums (reflection_request m1 m2 ang) ''angle'' = Some ang"
  by (simp_all add: reflection_request_def)

lemma radians_range:
  assumes "0 \<le> ang" "ang \<le> 90"
  shows "0 \<le> radians ang" "radians ang \<le> pi / 2"
  using assms by (simp_all add: radians_def)

lemma snell_ratio_nonneg:
  assumes "0 < n1" "0 < n2" "0 \<le> ang" "ang \<le> 90"
  shows "0 \<le> n1 * sin (radians ang) / n2"
proof -
  have "0 \<le> sin (radians ang)"
    using radians_range [OF assms(3,4)] pi_ge_two by (intro sin_ge_zero) auto
  then show ?thesis using assms(1,2) by simp
qed

text \<open>
  C1. For a reflection request with refractive indices \<open>n1\<close>, \<open>n2\<close> and an incident angle
  in \<open>[0, 90]\<close> degrees, the configuration has \<open>total_internal_reflection = true\<close> exactly
  when \<open>n1 * sin theta_i / n2 > 1\<close>. When it is false, the transmitted angle reported (in
  radians and in degrees) satisfies Snell's law \<open>n1 * sin theta_i = n2 * sin theta_t\<close>; when
  it is true, the critical angle reported is \<open>arcsin (n2 / n1)\<close>, in degrees.
\<close>

theorem snell_configuration:
  assumes "nums d ''frequency'' = Some f" "f \<noteq> 0" "nums d ''amplitude'' = Some A"
    and "strs d ''phenomenon'' = Some ''reflection''"
    and "strs d ''medium1'' = Some k1" "materials k1 = Some medium1"
    and "strs d ''medium2'' = Some k2" "materials k2 = Some medium2"
    and "nums d ''angle'' = Some ang" "0 \<le> ang" "ang \<le> 90"
    and "n1 = refractive_index medium1" "n2 = refractive_index medium2"
    and "theta_i = radians ang"
  shows "config_at d [''physics'', ''total_internal_reflection''] =
           Some (CBool (n1 * sin theta_i / n2 > 1)) \<and>
         (\<not> n1 * sin theta_i / n2 > 1 \<longrightarrow>
            (\<exists>theta_t.
               config_at d [''physics'', ''transmitted_angle_rad''] = Some (CNum (Some theta_t)) \<and>
               config_at d [''physics'', ''transmitted_angle_deg''] =
                 Some (CNum (Some (degrees theta_t))) \<and>
               n1 * sin theta_i = n2 * sin theta_t)) \<and>
         (n1 * sin theta_i / n2 > 1 \<longrightarrow>
            config_at d [''physics'', ''critical_angle_deg''] =
              Some (CNum (Some (degrees (arcsin (n2 / n1))))))"
proof -
  note at = reflection_config_at [OF assms(1-9), folded assms(12-14)]
  have n: "0 < n1" "0 < n2"
    using assms(6,8,12,13) by (simp_all add: refractive_index_pos)
  define s where "s = n1 * sin theta_i / n2"
  have s0: "0 \<le> s"
    unfolding s_def assms(14) using n assms(10,11) by (rule snell_ratio_nonneg)
  have flag: "config_at d [''physics'', ''total_internal_reflection''] = Some (CBool (1 < s))"
    by (simp add: at fresnel_entries_flag s_def)
  have refr: "\<exists>theta_t.
        config_at d [''physics'', ''transmitted_angle_rad''] = Some (CNum (Some theta_t)) \<and>
        config_at d [''physics'', ''transmitted_angle_deg''] = Some (CNum (Some (degrees theta_t))) \<and>
        n1 * sin theta_i = n2 * sin theta_t" if "\<not> 1 < s"
  proof -
    have le: "- 1 \<le> s" "s \<le> 1" using s0 that by simp_all
    have "n2 * sin (arcsin s) = n1 * sin theta_i"
      using le n by (simp add: s_def)
    then show ?thesis
      by (intro exI [of _ "arcsin s"]) (simp add: at fresnel_entries_refraction [OF s_def le])
  qed
  have crit: "config_at d [''physics'', ''critical_angle_deg''] =
      Some (CNum (Some (degrees (arcsin (n2 / n1)))))" if "1 < s"
  proof -
    have "n2 < n1 * sin theta_i" using that n by (simp add: s_def field_simps)
    also have "n1 * sin theta_i \<le> n1 * 1"
      using n by (intro mult_left_mono) auto
    finally have "n2 / n1 < 1" using n by simp
    moreover have "0 < n2 / n1" using n by simp
    ultimately have "np_arcsin (n2 / n1) = Some (arcsin (n2 / n1))"
      by (simp add: np_arcsin_def)
    then show ?thesis
      using that by (simp add: at fresnel_entries_total s_def)
  qed
  show ?thesis using flag refr crit by (simp add: s_def)
qed

text \<open>Normal incidence from air on glass is refracted.\<close>

theorem snell_configuration_witness:
  "config_at (reflection_request ''Air'' ''Glass'' 0) [''physics'', ''total_internal_reflection''] =
     Some (CBool False)"
proof -
  note rq = reflection_request_simps [of "''Air''" "''Glass''" 0]
  show ?thesis
    using snell_configuration [OF rq(1) _ rq(2-4) materials_simps(1) rq(5) materials_simps(2)
        rq(6) _ _ refl refl refl]
    by (simp add: radians_def)
qed






text \<open>
  The four media have distinct refractive indices, so between two different media the
  critical condition excludes grazing incidence: the cosine of the incident angle is not 0.
\<close>

lemma distinct_media_indices:
  assumes "materials k1 = Some m1" "materials k2 = Some m2"
    and "refractive_index m1 = refractive_index m2"
  shows "k1 = k2"
  using assms
  by (auto simp: materials_def refractive_index_def medium_def split: if_splits)

lemma critical_angle_cos_nonzero:
  fixes n1 n2 theta_i :: real
  assumes "0 < n1" "0 < n2" "n1 \<noteq> n2" "n1 * sin theta_i / n2 = 1"
  shows "cos theta_i \<noteq> 0"
proof
  assume "cos theta_i = 0"
  then have "(sin theta_i) ^ 2 = 1"
    using sin_cos_squared_add [of theta_i] by simp
  then have "sin theta_i = 1 \<or> sin theta_i = - 1"
    by (simp add: power2_eq_1_iff)
  moreover have "n1 * sin theta_i = n2" using assms(2,4) by (simp add: field_simps)
  ultimately show False using assms(1-3) by auto
qed




section \<open>Waveguide modes\<close>

lemma int_of_char_digit:
  assumes "k < 10"
  shows "int_of_char (digit_char k) = Inr k"
proof -
  have "k \<in> {0, 1, 2, 3, 4, 5, 6, 7, 8, 9}" using assms by auto
  then show ?thesis
    by (auto simp: int_of_char_def digit_char_def Let_def)
qed

lemma cutoff_nonneg: "0 \<le> SPEED_OF_LIGHT / (2 * pi) * sqrt (x ^ 2 + y ^ 2)"
  by (simp add: SPEED_OF_LIGHT_def)

lemma propagating_wavenumbers:
  assumes "0 \<le> fc" "fc < f"
  shows "0 < (2 * pi * f / SPEED_OF_LIGHT) ^ 2 - (2 * pi * fc / SPEED_OF_LIGHT) ^ 2"
proof -
  have c: "0 < SPEED_OF_LIGHT" by (simp add: SPEED_OF_LIGHT_def)
  have "2 * pi * fc / SPEED_OF_LIGHT < 2 * pi * f / SPEED_OF_LIGHT"
    using assms c by (simp add: divide_strict_right_mono)
  moreover have "0 \<le> 2 * pi * fc / SPEED_OF_LIGHT" using assms c by simp
  ultimately have "(2 * pi * fc / SPEED_OF_LIGHT) ^ 2 < (2 * pi * f / SPEED_OF_LIGHT) ^ 2"
    by (intro power_strict_mono) auto
  then show ?thesis by simp
qed

lemma evanescent_wavenumbers:
  assumes "0 < f" "f \<le> fc"
  shows "0 \<le> (2 * pi * fc / SPEED_OF_LIGHT) ^ 2 - (2 * pi * f / SPEED_OF_LIGHT) ^ 2"
proof -
  have c: "0 < SPEED_OF_LIGHT" by (simp add: SPEED_OF_LIGHT_def)
  have "2 * pi * f / SPEED_OF_LIGHT \<le> 2 * pi * fc / SPEED_OF_LIGHT"
    using assms c by (simp add: divide_right_mono)
  moreover have "0 \<le> 2 * pi * f / SPEED_OF_LIGHT" using assms c by simp
  ultimately have "(2 * pi * f / SPEED_OF_LIGHT) ^ 2 \<le> (2 * pi * fc / SPEED_OF_LIGHT) ^ 2"
    by (intro power_mono) auto
  then show ?thesis by simp
qed

lemma calculate_waveguide_impedance_propagating:
  assumes "0 \<le> fc" "fc < f"
  shows "calculate_waveguide_impedance mode_type f fc =
    Some (if mode_type = ''TE'' then VACUUM_IMPEDANCE / sqrt (1 - (fc / f) ^ 2)
          else VACUUM_IMPEDANCE * sqrt (1 - (fc / f) ^ 2))"
proof -
  have f: "0 < f" using assms by simp
  have "0 \<le> fc / f" "fc / f < 1" using assms f by simp_all
  then have "(fc / f) ^ 2 < 1 ^ 2" by (intro power_strict_mono) auto
  then have pos: "0 < 1 - (fc / f) ^ 2" by simp
  then have "0 < sqrt (1 - (fc / f) ^ 2)" by simp
  then show ?thesis
    using assms f pos unfolding calculate_waveguide_impedance_def
    by (simp add: np_div_def np_sqrt_def Let_def)
qed

lemma waveguide_entries_eq:
  assumes mode: "get_str d ''mode'' ''TE10'' = [CHR ''T'', tp, digit_char m, digit_char n]"
    and mn: "m < 10" "n < 10"
    and a: "a = get_num d ''guide_width'' (23 / 1000)" "a \<noteq> 0"
    and b: "b = get_num d ''guide_height'' (10 / 1000)" "b \<noteq> 0"
    and fc: "fc = SPEED_OF_LIGHT / (2 * pi) * sqrt ((real m * pi / a) ^ 2 + (real n * pi / b) ^ 2)"
    and f: "0 < f"
    and k: "k0 = 2 * pi * f / SPEED_OF_LIGHT" "kc = 2 * pi * fc / SPEED_OF_LIGHT"
  shows "waveguide_entries d \<lparr>frequency = f, amplitude = A\<rparr> =
    Inr [(''waveguide'', CDict
      (if fc < f then
         [(''type'', CStr (get_str d ''guide_type'' ''rectangular'')),
          (''width'', CNum (Some a)),
          (''height'', CNum (Some b)),
          (''mode'', CStr [CHR ''T'', tp, digit_char m, digit_char n]),
          (''mode_type'', CStr [CHR ''T'', tp]),
          (''mode_indices'', CDict [(''m'', CNum (Some (real m))), (''n'', CNum (Some (real n)))]),
          (''cutoff_frequency'', CNum (Some fc)),
          (''cutoff_wavelength'', CNum (np_div SPEED_OF_LIGHT fc)),
          (''propagation_constant'', CNum (Some (sqrt (k0 ^ 2 - kc ^ 2)))),
          (''guide_wavelength'', CNum (Some (2 * pi / sqrt (k0 ^ 2 - kc ^ 2)))),
          (''phase_velocity'', CNum (Some (2 * pi * f / sqrt (k0 ^ 2 - kc ^ 2)))),
          (''group_velocity'',
             CNum (Some (SPEED_OF_LIGHT ^ 2 / (2 * pi * f / sqrt (k0 ^ 2 - kc ^ 2))))),
          (''impedance'', CNum (Some
             (if tp = CHR ''E'' then VACUUM_IMPEDANCE / sqrt (1 - (fc / f) ^ 2)
              else VACUUM_IMPEDANCE * sqrt (1 - (fc / f) ^ 2))))]
       else
         [(''type'', CStr (get_str d ''guide_type'' ''rectangular'')),
          (''width'', CNum (Some a)),
          (''height'', CNum (Some b)),
          (''mode'', CStr [CHR ''T'', tp, digit_char m, digit_char n]),
          (''cutoff_frequency'', CNum (Some fc)),
          (''attenuation_constant'', CNum (Some (sqrt (kc ^ 2 - k0 ^ 2)))),
          (''evanescent'', CBool True)]))]"
proof -
  have fc0: "0 \<le> fc" unfolding fc by (rule cutoff_nonneg)
  have pre: "str_index [CHR ''T'', tp, digit_char m, digit_char n] 2 = Inr (digit_char m)"
      "str_index [CHR ''T'', tp, digit_char m, digit_char n] 3 = Inr (digit_char n)"
    by (simp_all add: str_index_def)
  show ?thesis
  proof (cases "fc < f")
    case True
    have pos: "0 < k0 ^ 2 - kc ^ 2"
      unfolding k by (rule propagating_wavenumbers [OF fc0 True])
    then have root: "0 < sqrt (k0 ^ 2 - kc ^ 2)" by simp
    have imp: "calculate_waveguide_impedance [CHR ''T'', tp] f fc =
        Some (if tp = CHR ''E'' then VACUUM_IMPEDANCE / sqrt (1 - (fc / f) ^ 2)
              else VACUUM_IMPEDANCE * sqrt (1 - (fc / f) ^ 2))"
      by (simp add: calculate_waveguide_impedance_propagating [OF fc0 True])
    have ne: "sqrt (k0 ^ 2 - kc ^ 2) \<noteq> 0" "2 * pi * f / sqrt (k0 ^ 2 - kc ^ 2) \<noteq> 0"
      using root f by simp_all
    show ?thesis
      unfolding waveguide_entries_def mode a(1) [symmetric] b(1) [symmetric] Let_def
      apply (simp only: pre bind_err_simps int_of_char_digit [OF mn(1)]
          int_of_char_digit [OF mn(2)] py_div_def a(2) b(2) if_False)
      apply (simp only: angular_frequency_def WaveParameters.select_convs
          fc [symmetric] k [symmetric])
      using True pos ne by (simp add: np_sqrt_def np_div_def imp)
  next
    case False
    then have le: "f \<le> fc" by simp
    have nn: "0 \<le> kc ^ 2 - k0 ^ 2"
      unfolding k by (rule evanescent_wavenumbers [OF f le])
    show ?thesis
      unfolding waveguide_entries_def mode a(1) [symmetric] b(1) [symmetric] Let_def
      apply (simp only: pre bind_err_simps int_of_char_digit [OF mn(1)]
          int_of_char_digit [OF mn(2)] py_div_def a(2) b(2) if_False)
      apply (simp only: angular_frequency_def WaveParameters.select_convs
          fc [symmetric] k [symmetric])
      using False nn by (simp add: np_sqrt_def)
  qed
qed

text \<open>
  C4. For a waveguide request with a mode string \<open>TEmn\<close> or \<open>TMmn\<close> (single digits \<open>m\<close>,
  \<open>n\<close>) and dimensions \<open>a\<close>, \<open>b\<close>, the cutoff frequency reported is
  \<open>c / (2 * pi) * sqrt ((m * pi / a)\<^sup>2 + (n * pi / b)\<^sup>2)\<close>. When the request frequency is
  strictly greater, the configuration describes a propagating mode: propagation constant,
  guide wavelength, phase and group velocity and impedance, and no evanescent entry.
  Otherwise it describes an evanescent mode with attenuation constant
  \<open>sqrt ((2 * pi * fc / c)\<^sup>2 - (omega / c)\<^sup>2)\<close>, and none of the propagation entries.
\<close>

theorem waveguide_cutoff_configuration:
  assumes "nums d ''frequency'' = Some f" "0 < f" "nums d ''amplitude'' = Some A"
    and "strs d ''phenomenon'' = Some ''waveguide''"
    and "get_str d ''mode'' ''TE10'' = [CHR ''T'', tp, digit_char m, digit_char n]"
    and "tp = CHR ''E'' \<or> tp = CHR ''M''" "m < 10" "n < 10"
    and "a = get_num d ''guide_width'' (23 / 1000)" "a \<noteq> 0"
    and "b = get_num d ''guide_height'' (10 / 1000)" "b \<noteq> 0"
    and "fc = SPEED_OF_LIGHT / (2 * pi) * sqrt ((real m * pi / a) ^ 2 + (real n * pi / b) ^ 2)"
    and "omega = 2 * pi * f"
    and "beta_g = sqrt ((omega / SPEED_OF_LIGHT) ^ 2 - (2 * pi * fc / SPEED_OF_LIGHT) ^ 2)"
  shows "config_at d [''physics'', ''waveguide'', ''cutoff_frequency''] = Some (CNum (Some fc)) \<and>
    (fc < f \<longrightarrow>
       config_at d [''physics'', ''waveguide'', ''propagation_constant''] =
         Some (CNum (Some beta_g)) \<and>
       config_at d [''physics'', ''waveguide'', ''guide_wavelength''] =
         Some (CNum (Some (2 * pi / beta_g))) \<and>
       config_at d [''physics'', ''waveguide'', ''phase_velocity''] =
         Some (CNum (Some (omega / beta_g))) \<and>
       config_at d [''physics'', ''waveguide'', ''group_velocity''] =
         Some (CNum (Some (SPEED_OF_LIGHT ^ 2 / (omega / beta_g)))) \<and>
       config_at d [''physics'', ''waveguide'', ''impedance''] =
         Some (CNum (Some (if tp = CHR ''E'' then VACUUM_IMPEDANCE / sqrt (1 - (fc / f) ^ 2)
                           else VACUUM_IMPEDANCE * sqrt (1 - (fc / f) ^ 2)))) \<and>
       config_at d [''physics'', ''waveguide'', ''evanescent''] = None \<and>
       config_at d [''physics'', ''waveguide'', ''attenuation_constant''] = None) \<and>
    (\<not> fc < f \<longrightarrow>
       config_at d [''physics'', ''waveguide'', ''evanescent''] = Some (CBool True) \<and>
       config_at d [''physics'', ''waveguide'', ''attenuation_constant''] =
         Some (CNum (Some (sqrt ((2 * pi * fc / SPEED_OF_LIGHT) ^ 2 - (omega / SPEED_OF_LIGHT) ^ 2)))) \<and>
       config_at d [''physics'', ''waveguide'', ''propagation_constant''] = None \<and>
       config_at d [''physics'', ''waveguide'', ''guide_wavelength''] = None \<and>
       config_at d [''physics'', ''waveguide'', ''phase_velocity''] = None \<and>
       config_at d [''physics'', ''waveguide'', ''group_velocity''] = None \<and>
       config_at d [''physics'', ''waveguide'', ''impedance''] = None)"
proof -
  have f0: "f \<noteq> 0" using assms(2) by simp
  note ent = waveguide_entries_eq [OF assms(5,7-13) assms(2) refl refl, of A]
  have pe: "phenomenon_entries d \<lparr>frequency = f, amplitude = A\<rparr> ''waveguide'' =
      waveguide_entries d \<lparr>frequency = f, amplitude = A\<rparr>"
    by (simp add: phenomenon_entries_def)
  note at = config_at_physics [OF assms(1) f0 assms(3,4) pe [unfolded ent], of "''waveguide''"]
  show ?thesis
    unfolding assms(14,15) by (simp add: at)
qed

text \<open>The default guide, 23 mm by 10 mm in mode TE10, propagates 10 GHz.\<close>

theorem waveguide_cutoff_configuration_witness:
  "config_at waveguide_request [''physics'', ''waveguide'', ''cutoff_frequency''] =
     Some (CNum (Some (SPEED_OF_LIGHT / (2 * pi) * sqrt ((pi / (23 / 1000)) ^ 2)))) \<and>
   config_at waveguide_request [''physics'', ''waveguide'', ''evanescent''] = None"
proof -
  define fc where "fc = SPEED_OF_LIGHT / (2 * pi) * sqrt ((pi / (23 / 1000)) ^ 2)"
  have fc: "fc = SPEED_OF_LIGHT / (2 * pi) *
      sqrt ((real 1 * pi / (23 / 1000)) ^ 2 + (real 0 * pi / (10 / 1000)) ^ 2)"
    by (simp add: fc_def)
  have "fc = SPEED_OF_LIGHT / (2 * pi) * (pi / (23 / 1000))"
    unfolding fc_def by (simp only: real_sqrt_abs) simp
  then have lt: "fc < 10000000000" by (simp add: SPEED_OF_LIGHT_def)
  have mode: "get_str waveguide_request ''mode'' ''TE10'' =
      [CHR ''T'', CHR ''E'', digit_char 1, digit_char 0]"
    by (simp add: waveguide_request_def get_str_def digit_char_def)
  have "config_at waveguide_request [''physics'', ''waveguide'', ''cutoff_frequency''] =
      Some (CNum (Some fc)) \<and>
    (fc < 10000000000 \<longrightarrow>
       config_at waveguide_request [''physics'', ''waveguide'', ''evanescent''] = None)"
    using waveguide_cutoff_configuration [where d = waveguide_request and f = 10000000000
        and A = 1 and tp = "CHR ''E''" and m = 1 and n = 0 and a = "23 / 1000" and b = "10 / 1000",
        OF _ _ _ _ mode _ _ _ _ _ _ _ fc refl refl]
    by (simp add: waveguide_request_def get_num_def)
  with lt show ?thesis by (simp add: fc_def)
qed

section \<open>Radiation resistance\<close>

text \<open>Bounds on \<open>pi\<close> from the sine series at \<open>pi / 6\<close>.\<close>

lemma sin_coeff_small:
  "sin_coeff 0 = 0" "sin_coeff (Suc 0) = 1" "sin_coeff 2 = 0" "sin_coeff 3 = - 1 / 6"
  "sin_coeff 4 = 0" "sin_coeff 5 = 1 / 120" "sin_coeff 6 = 0"
  by (simp_all add: sin_coeff_def fact_numeral)

lemma sin_poly7: "(\<Sum>m<7. sin_coeff m * x ^ m) = x - x^3/6 + x^5/120"
proof -
  have "{..<7::nat} = {0, 1, 2, 3, 4, 5, 6}" by auto
  then show ?thesis by (simp add: sin_coeff_small)
qed

lemma sin_poly_bound: "\<bar>sin (x::real) - (x - x^3/6 + x^5/120)\<bar> \<le> \<bar>x\<bar>^7/5040"
  using Maclaurin_sin_bound [of x 7] unfolding sin_poly7
  by (simp add: fact_numeral field_simps)

lemma pi_gt_314: "314 / 100 < pi"
proof (rule ccontr)
  assume "\<not> 314 / 100 < pi"
  then have le: "pi / 6 \<le> 314 / 600" by simp
  have "sin (pi / 6) \<le> sin (314 / 600 :: real)"
    by (rule sin_monotone_2pi_le) (use le pi_ge_two in auto)
  then have a: "1 / 2 \<le> sin (314 / 600 :: real)" by (simp only: sin_30)
  have b: "(314 / 600 :: real) - (314 / 600)^3/6 + (314 / 600)^5/120 + \<bar>314 / 600\<bar>^7/5040 < 1 / 2"
    by (simp add: power_divide)
  show False using a b sin_poly_bound [of "314 / 600"] by linarith
qed

lemma pi_lt_3142: "pi < 3142 / 1000"
proof (rule ccontr)
  assume "\<not> pi < 3142 / 1000"
  then have le: "3142 / 6000 \<le> pi / 6" by simp
  have "sin (3142 / 6000 :: real) \<le> sin (pi / 6)"
    by (rule sin_monotone_2pi_le) (use le pi_ge_two in auto)
  then have a: "sin (3142 / 6000 :: real) \<le> 1 / 2" by (simp only: sin_30)
  have b: "1 / 2 < (3142 / 6000 :: real) - (3142 / 6000)^3/6 + (3142 / 6000)^5/120 - \<bar>3142 / 6000\<bar>^7/5040"
    by (simp add: power_divide)
  show False using a b sin_poly_bound [of "3142 / 6000"] by linarith
qed

lemma pi_squared_bounds: "985 / 100 < pi ^ 2" "pi ^ 2 < 99 / 10"
proof -
  have "(314 / 100) ^ 2 < pi ^ 2"
    by (rule power_strict_mono) (use pi_gt_314 in auto)
  then show "985 / 100 < pi ^ 2" by (simp add: power2_eq_square)
  have "pi ^ 2 < (3142 / 1000) ^ 2"
    by (rule power_strict_mono) (use pi_lt_3142 pi_gt_zero in auto)
  then show "pi ^ 2 < 99 / 10" by (simp add: power2_eq_square)
qed

text \<open>The resistance as a function of the ratio \<open>l / lambda\<close>.\<close>

lemma R_rad_of_eq:
  "R_rad_of x = (if x \<le> 1 / 10 then 20 * (pi * x) ^ 2
                 else if \<bar>x - 1 / 2\<bar> < 1 / 100 then 7313 / 100
                 else 80 * (pi * x) ^ 2)"
  by (simp add: R_rad_of_def calculate_radiation_resistance_def py_div_def bind_err_def)

lemma calculate_radiation_resistance_ratio:
  "wl \<noteq> 0 \<Longrightarrow> calculate_radiation_resistance l wl = Inr (R_rad_of (l / wl))"
  by (simp add: calculate_radiation_resistance_def py_div_def R_rad_of_eq)

lemma R_rad_of_short: "x \<le> 1 / 10 \<Longrightarrow> R_rad_of x = 20 * (pi * x) ^ 2"
  by (simp add: R_rad_of_eq)

lemma R_rad_of_general: "1 / 10 < x \<Longrightarrow> x \<le> 49 / 100 \<Longrightarrow> R_rad_of x = 80 * (pi * x) ^ 2"
  by (simp add: R_rad_of_eq)

lemma R_rad_of_half_wave: "\<bar>x - 1 / 2\<bar> < 1 / 100 \<Longrightarrow> R_rad_of x = 7313 / 100"
  by (auto simp: R_rad_of_eq)

lemma R_rad_of_tenth: "R_rad_of (1 / 10) = pi ^ 2 / 5"
  by (simp add: R_rad_of_eq power_divide)

lemma R_rad_of_general_sq:
  "1 / 10 < x \<Longrightarrow> x \<le> 49 / 100 \<Longrightarrow> R_rad_of x = 80 * (pi ^ 2 * x ^ 2)"
  by (simp add: R_rad_of_general power_mult_distrib)

lemma R_rad_of_jump:
  assumes "1 / 10 < x" "x \<le> 49 / 100"
  shows "4 * R_rad_of (1 / 10) < R_rad_of x"
proof -
  have "(1 / 10) ^ 2 < x ^ 2"
    by (rule power_strict_mono) (use assms in auto)
  then have "1 / 100 < x ^ 2" by (simp add: power2_eq_square)
  then have "pi ^ 2 * (1 / 100) < pi ^ 2 * x ^ 2"
    by (intro mult_strict_left_mono) auto
  then have "pi ^ 2 / 100 < pi ^ 2 * x ^ 2" by simp
  then show ?thesis
    unfolding R_rad_of_tenth R_rad_of_general_sq [OF assms] by linarith
qed

lemma R_rad_of_near:
  assumes "1 / 10 < x" "x \<le> 11 / 100"
  shows "R_rad_of x < 5 * R_rad_of (1 / 10)"
proof -
  have le: "x \<le> 49 / 100" using assms by simp
  have "x ^ 2 \<le> (11 / 100) ^ 2"
    by (rule power_mono) (use assms in auto)
  then have "x ^ 2 < 1 / 80" by (simp add: power2_eq_square)
  then have "pi ^ 2 * x ^ 2 < pi ^ 2 * (1 / 80)"
    by (intro mult_strict_left_mono) auto
  then have "pi ^ 2 * x ^ 2 < pi ^ 2 / 80" by simp
  then show ?thesis
    unfolding R_rad_of_tenth R_rad_of_general_sq [OF assms(1) le] by linarith
qed

lemma R_rad_of_tenth_bounds: "197 / 100 < R_rad_of (1 / 10)" "R_rad_of (1 / 10) < 198 / 100"
  unfolding R_rad_of_tenth using pi_squared_bounds by linarith+

lemma R_rad_of_not_isCont: "\<not> isCont R_rad_of (1 / 10)"
proof
  assume "isCont R_rad_of (1 / 10)"
  then obtain s where s: "0 < s"
      "\<And>x. x \<noteq> 1 / 10 \<Longrightarrow> \<bar>x - 1 / 10\<bar> < s \<Longrightarrow> \<bar>R_rad_of x - R_rad_of (1 / 10)\<bar> < 1"
    unfolding isCont_def LIM_eq real_norm_def by (metis zero_less_one)
  define x where "x = 1 / 10 + min (s / 2) (1 / 100)"
  have x: "1 / 10 < x" "x \<le> 11 / 100" "\<bar>x - 1 / 10\<bar> < s"
    using s(1) by (auto simp: x_def min_def)
  then have "\<bar>R_rad_of x - R_rad_of (1 / 10)\<bar> < 1"
    using s(2) [of x] by simp
  moreover have "4 * R_rad_of (1 / 10) < R_rad_of x"
    using x by (intro R_rad_of_jump) auto
  ultimately show False using R_rad_of_tenth_bounds by linarith
qed

lemma R_rad_of_not_mono: "\<not> mono R_rad_of"
proof
  assume "mono R_rad_of"
  then have "R_rad_of (4 / 10) \<le> R_rad_of (1 / 2)"
    by (rule monoD) simp
  moreover have "R_rad_of (1 / 2) = 7313 / 100"
    by (rule R_rad_of_half_wave) simp
  moreover have "R_rad_of (4 / 10) = 80 * (pi ^ 2 * (4 / 10) ^ 2)"
    by (rule R_rad_of_general_sq) simp_all
  ultimately show False using pi_squared_bounds by (simp add: power2_eq_square)
qed

text \<open>
  C10. \<^verbatim>\<open>calculate_radiation_resistance\<close> is discontinuous at \<open>l / lambda = 0.1\<close>, and it is
  not monotone. At \<open>l / lambda = 0.1\<close> it returns \<open>20 * (0.1 * pi)\<^sup>2\<close>, about 1.97 ohms; for
  every \<open>l / lambda\<close> in the open interval \<open>(0.1, 0.49)\<close> it returns
  \<open>80 * (pi * l / lambda)\<^sup>2\<close>, more than four times that value; so there are inputs
  \<open>x < y\<close> arbitrarily close together whose results differ by a factor between 4 and 5.
\<close>

theorem radiation_resistance_discontinuous:
  assumes "wl \<noteq> 0"
  shows "(l / wl = 1 / 10 \<longrightarrow>
            calculate_radiation_resistance l wl = Inr (20 * (pi * (1 / 10)) ^ 2)) \<and>
         197 / 100 < 20 * (pi * (1 / 10)) ^ 2 \<and> 20 * (pi * (1 / 10)) ^ 2 < 198 / 100 \<and>
         (1 / 10 < l / wl \<and> l / wl < 49 / 100 \<longrightarrow>
            calculate_radiation_resistance l wl = Inr (80 * (pi * (l / wl)) ^ 2) \<and>
            4 * (20 * (pi * (1 / 10)) ^ 2) < 80 * (pi * (l / wl)) ^ 2) \<and>
         (\<forall>delta>0. \<exists>x y rx ry. x < y \<and> y - x < delta \<and>
            calculate_radiation_resistance (x * wl) wl = Inr rx \<and>
            calculate_radiation_resistance (y * wl) wl = Inr ry \<and>
            4 * rx < ry \<and> ry < 5 * rx) \<and>
         \<not> isCont (\<lambda>x. projr (calculate_radiation_resistance (x * wl) wl)) (1 / 10) \<and>
         \<not> mono (\<lambda>x. projr (calculate_radiation_resistance (x * wl) wl))"
proof -
  note crr = calculate_radiation_resistance_ratio [OF assms]
  have fn: "(\<lambda>x. projr (calculate_radiation_resistance (x * wl) wl)) = R_rad_of"
    using assms by (simp add: crr fun_eq_iff)
  have tenth: "R_rad_of (1 / 10) = 20 * (pi * (1 / 10)) ^ 2"
    by (rule R_rad_of_short) simp
  have 1: "calculate_radiation_resistance l wl = Inr (20 * (pi * (1 / 10)) ^ 2)"
    if "l / wl = 1 / 10"
    using that by (simp only: crr tenth)
  have 2: "197 / 100 < 20 * (pi * (1 / 10)) ^ 2" "20 * (pi * (1 / 10)) ^ 2 < 198 / 100"
    using R_rad_of_tenth_bounds by (simp_all only: tenth)
  have 3: "calculate_radiation_resistance l wl = Inr (80 * (pi * (l / wl)) ^ 2) \<and>
      4 * (20 * (pi * (1 / 10)) ^ 2) < 80 * (pi * (l / wl)) ^ 2"
    if "1 / 10 < l / wl \<and> l / wl < 49 / 100"
  proof -
    have g: "R_rad_of (l / wl) = 80 * (pi * (l / wl)) ^ 2"
      using that by (intro R_rad_of_general) auto
    have "4 * R_rad_of (1 / 10) < R_rad_of (l / wl)"
      using that by (intro R_rad_of_jump) auto
    then show ?thesis by (simp only: crr g tenth)
  qed
  have 4: "\<exists>x y rx ry. x < y \<and> y - x < delta \<and>
      calculate_radiation_resistance (x * wl) wl = Inr rx \<and>
      calculate_radiation_resistance (y * wl) wl = Inr ry \<and>
      4 * rx < ry \<and> ry < 5 * rx" if "0 < delta" for delta :: real
  proof -
    define y where "y = 1 / 10 + min (delta / 2) (1 / 100)"
    have y: "1 / 10 < y" "y \<le> 11 / 100" "y - 1 / 10 < delta"
      using that by (auto simp: y_def min_def)
    have "4 * R_rad_of (1 / 10) < R_rad_of y"
      using y by (intro R_rad_of_jump) auto
    moreover have "R_rad_of y < 5 * R_rad_of (1 / 10)"
      using y by (intro R_rad_of_near) auto
    ultimately show ?thesis
      using y assms
      by (intro exI [of _ "1 / 10"] exI [of _ y] exI [of _ "R_rad_of (1 / 10)"]
          exI [of _ "R_rad_of y"]) (simp add: crr)
  qed
  show ?thesis
    unfolding fn using 1 2 3 4 R_rad_of_not_isCont R_rad_of_not_mono by blast
qed

text \<open>At wavelength 1: the lengths 0.1 and 0.2, and a pair closer than 0.001.\<close>

theorem radiation_resistance_discontinuous_witness:
  "calculate_radiation_resistance (1 / 10) 1 = Inr (20 * (pi * (1 / 10)) ^ 2) \<and>
   calculate_radiation_resistance (2 / 10) 1 = Inr (80 * (pi * (2 / 10)) ^ 2) \<and>
   (\<exists>x y rx ry. x < y \<and> y - x < 1 / 1000 \<and>
      calculate_radiation_resistance (x * 1) 1 = Inr rx \<and>
      calculate_radiation_resistance (y * 1) 1 = Inr ry \<and>
      4 * rx < ry \<and> ry < 5 * rx) \<and>
   \<not> isCont (\<lambda>x. projr (calculate_radiation_resistance (x * 1) 1)) (1 / 10)"
proof -
  have one: "(1::real) \<noteq> 0" by simp
  have "calculate_radiation_resistance (1 / 10) 1 = Inr (20 * (pi * (1 / 10)) ^ 2)"
    using radiation_resistance_discontinuous [OF one, of "1 / 10"] by simp
  moreover have "calculate_radiation_resistance (2 / 10) 1 = Inr (80 * (pi * (2 / 10)) ^ 2)"
    using radiation_resistance_discontinuous [OF one, of "2 / 10"] by simp
  moreover have "\<exists>x y rx ry. x < y \<and> y - x < 1 / 1000 \<and>
      calculate_radiation_resistance (x * 1) 1 = Inr rx \<and>
      calculate_radiation_resistance (y * 1) 1 = Inr ry \<and>
      4 * rx < ry \<and> ry < 5 * rx"
  proof -
    have "\<forall>delta>0. \<exists>x y rx ry. x < y \<and> y - x < delta \<and>
        calculate_radiation_resistance (x * 1) 1 = Inr rx \<and>
        calculate_radiation_resistance (y * 1) 1 = Inr ry \<and>
        4 * rx < ry \<and> ry < 5 * rx"
      using radiation_resistance_discontinuous [OF one, of 0] by blast
    moreover have "(0::real) < 1 / 1000" by simp
    ultimately show ?thesis by blast
  qed
  moreover have "\<not> isCont (\<lambda>x. projr (calculate_radiation_resistance (x * 1) 1)) (1 / 10)"
    using radiation_resistance_discontinuous [OF one, of 0] by blast
  ultimately show ?thesis by blast
qed

text \<open>
  The resistance reported for a dipole request is that of its length in wavelengths
  (default 0.5): \<open>20 * (pi * x)\<^sup>2\<close> up to \<open>x = 0.1\<close>, 73.13 within 0.01 of \<open>x = 0.5\<close>, and
  \<open>80 * (pi * x)\<^sup>2\<close> elsewhere.
\<close>

lemma dipole_radiation_resistance:
  assumes "nums d ''frequency'' = Some f" "f \<noteq> 0" "nums d ''amplitude'' = Some A"
    and "strs d ''phenomenon'' = Some ''dipole''"
    and "x = get_num d ''dipole_length'' (1 / 2)"
  shows "config_at d [''physics'', ''dipole'', ''radiation_resistance''] =
    Some (CNum (Some (R_rad_of x)))"
proof -
  have c: "SPEED_OF_LIGHT / f \<noteq> 0" using assms(2) by (simp add: SPEED_OF_LIGHT_def)
  have pe: "phenomenon_entries d \<lparr>frequency = f, amplitude = A\<rparr> ''dipole'' =
    Inr [(''dipole'', CDict
           [(''length'', CNum (Some (x * (SPEED_OF_LIGHT / f)))),
            (''length_wavelengths'', CNum (Some x)),
            (''current_distribution'', CStr (get_str d ''current_dist'' ''uniform'')),
            (''radiation_resistance'', CNum (Some (R_rad_of x)))])]"
    using assms(2) c
    by (simp add: phenomenon_entries_def dipole_entries_def wavelength_def py_div_def Let_def
        assms(5) [symmetric] calculate_radiation_resistance_ratio [OF c])
  show ?thesis
    by (simp add: config_at_physics [OF assms(1-4) pe])
qed

end
